theory Spec2Isabelle
  imports Main
begin

section \<open>The file system seen by the bundler\<close>

text \<open>
  The script works on text: \<open>open(..., 'r', encoding='utf-8')\<close> followed by
  \<open>read()\<close> either returns the decoded text of a file or raises. A file is
  therefore modelled by what these two calls do on it:
  \<^item> \<open>Text t\<close>: \<open>open\<close> succeeds and \<open>read()\<close> returns \<open>t\<close>;
  \<^item> \<open>Unopenable m\<close>: \<open>open\<close> raises an \<open>OSError\<close> whose text is \<open>m\<close>
    (permission denied, I/O error);
  \<^item> \<open>Undecodable m\<close>: \<open>open\<close> succeeds and \<open>read()\<close> raises a
    \<open>UnicodeDecodeError\<close> whose text is \<open>m\<close> (the bytes are not UTF-8).

  A directory is the list of its entries in the order in which the operating system
  enumerates them, with a flag telling whether it can be enumerated at all
  (\<open>Dir False es\<close> is a directory on which \<open>scandir\<close> raises).

  Texts are sequences of characters, as Python's \<open>str\<close>. The encoding to bytes
  and the newline translation of the platform belong to the library and are not
  modelled; neither are symbolic links.
\<close>

datatype file_state = Text string | Unopenable string | Undecodable string

datatype node = File file_state | Dir bool "(string \<times> node) list"

datatype error = OSError string | UnicodeDecodeError string

text \<open>\<open>str(e)\<close>, as the f-string of the diagnostic formats the exception.\<close>

fun str_error :: "error \<Rightarrow> string" where
  "str_error (OSError m) = m"
| "str_error (UnicodeDecodeError m) = m"

text \<open>
  The world of a run: what each path given to the program names (nothing, a file or a
  directory tree), and the lines printed so far. Paths below the start directory are
  lists of names resolved in its tree; the output path is a key of \<open>fs\<close> of its own,
  so the output file is taken not to lie inside the tree that is walked.
\<close>

record world =
  fs :: "string \<Rightarrow> node option"
  console :: "string list"

definition nl :: char where
  "nl = CHR 0x0A"

type_synonym path = "string list"

subsection \<open>Library functions the script calls\<close>

text \<open>\<open>os.path.isdir\<close>: the path exists and names a directory.\<close>

fun is_dir_node :: "node option \<Rightarrow> bool" where
  "is_dir_node (Some (Dir ok es)) = True"
| "is_dir_node (Some (File f)) = False"
| "is_dir_node None = False"

definition isdir :: "world \<Rightarrow> string \<Rightarrow> bool" where
  "isdir w p = is_dir_node (fs w p)"

text \<open>\<open>os.path.join\<close> (POSIX).\<close>

definition join :: "string \<Rightarrow> string \<Rightarrow> string" where
  "join a b =
     (if take 1 b = ''/'' then b
      else if a = [] \<or> last a = CHR ''/'' then a @ b
      else a @ ''/'' @ b)"

text \<open>
  The textual path of the entry reached from \<open>start_path\<close> by the names \<open>p\<close>:
  \<open>os.walk\<close> builds each \<open>dirpath\<close> by joining names to its argument, and the
  script joins the file name to \<open>dirpath\<close>.
\<close>

definition path_str :: "string \<Rightarrow> path \<Rightarrow> string" where
  "path_str start_path p = foldl join start_path p"

text \<open>
  \<open>os.path.relpath(filepath, start_path)\<close> for a \<open>filepath\<close> that was built by
  joining the names \<open>p\<close> to \<open>start_path\<close>: the names, separated by \<open>/\<close>.
\<close>

fun relpath :: "path \<Rightarrow> string" where
  "relpath [] = ''.''"
| "relpath [n] = n"
| "relpath (n # m # p) = n @ ''/'' @ relpath (m # p)"

text \<open>Resolving a list of names in a tree, as opening a file by its path does.\<close>

fun lookup :: "node \<Rightarrow> path \<Rightarrow> node option" where
  "lookup n [] = Some n"
| "lookup n (c # cs) =
     (case n of
        File f \<Rightarrow> None
      | Dir ok es \<Rightarrow> (case map_of es c of None \<Rightarrow> None | Some m \<Rightarrow> lookup m cs))"

text \<open>
  \<open>os.walk(top)\<close> with its defaults (top-down, \<open>onerror=None\<close>): a directory
  that cannot be enumerated, and a \<open>top\<close> that is no directory, yield nothing and
  raise nothing; otherwise the directory yields its own triple
  \<open>(dirpath, dirnames, filenames)\<close> first and then the triples of its
  subdirectories, in the order of enumeration. (\<open>walk_dirs\<close> goes through all
  entries; an entry that is a file yields nothing, so only the directories count.)
\<close>

fun dirnames :: "(string \<times> node) list \<Rightarrow> string list" where
  "dirnames [] = []"
| "dirnames ((name, Dir ok es) # rest) = name # dirnames rest"
| "dirnames ((name, File f) # rest) = dirnames rest"

fun filenames :: "(string \<times> node) list \<Rightarrow> string list" where
  "filenames [] = []"
| "filenames ((name, Dir ok es) # rest) = filenames rest"
| "filenames ((name, File f) # rest) = name # filenames rest"

fun walk :: "path \<Rightarrow> node \<Rightarrow> (path \<times> string list \<times> string list) list"
  and walk_dirs :: "path \<Rightarrow> (string \<times> node) list \<Rightarrow> (path \<times> string list \<times> string list) list"
where
  "walk dirpath (File f) = []"
| "walk dirpath (Dir ok es) =
     (if ok then (dirpath, dirnames es, filenames es) # walk_dirs dirpath es else [])"
| "walk_dirs dirpath [] = []"
| "walk_dirs dirpath ((name, n) # rest) = walk (dirpath @ [name]) n @ walk_dirs dirpath rest"

text \<open>
  \<open>open(filepath, 'r', encoding='utf-8')\<close> and \<open>infile.read()\<close>. Opening
  decodes nothing, so an undecodable file opens.
\<close>

definition open_r :: "node \<Rightarrow> path \<Rightarrow> error + file_state" where
  "open_r root filepath =
     (case lookup root filepath of
        None \<Rightarrow> Inl (OSError ''[Errno 2] No such file or directory'')
      | Some (Dir ok es) \<Rightarrow> Inl (OSError ''[Errno 21] Is a directory'')
      | Some (File (Unopenable m)) \<Rightarrow> Inl (OSError m)
      | Some (File f) \<Rightarrow> Inr f)"

fun read_text :: "file_state \<Rightarrow> error + string" where
  "read_text (Text t) = Inr t"
| "read_text (Undecodable m) = Inl (UnicodeDecodeError m)"
| "read_text (Unopenable m) = Inl (OSError m)"

text \<open>
  \<open>open(output_file, 'w', encoding='utf-8')\<close>: raises on a directory, and otherwise
  creates the file or truncates it. (The output path is taken to be writable.)
\<close>

definition open_w :: "(string \<Rightarrow> node option) \<Rightarrow> string \<Rightarrow> error + (string \<Rightarrow> node option)" where
  "open_w f output_file =
     (if is_dir_node (f output_file) then Inl (OSError ''[Errno 21] Is a directory'')
      else Inr (f(output_file \<mapsto> File (Text []))))"

section \<open>The script\<close>

text \<open>
  The body of the inner loop of \<open>bundle_files\<close>, for one \<open>filename\<close> of one
  \<open>dirpath\<close>, on the pair of the text written to \<open>outfile\<close> so far and the
  console. The statements are in the order of the source: the header is written
  once the file is open, then the file is read, then its text and the separator are
  written; an exception raised by any of them ends the \<open>try\<close> block and prints
  the diagnostic.
\<close>

definition could_not_read :: "string \<Rightarrow> error \<Rightarrow> string" where
  "could_not_read filepath e = ''Could not read file '' @ filepath @ '': '' @ str_error e"

definition header :: "string \<Rightarrow> string" where
  "header relative_filepath = ''--- '' @ relative_filepath @ '' ---'' @ [nl]"

definition bundle_file ::
  "node \<Rightarrow> string \<Rightarrow> path \<Rightarrow> string \<Rightarrow> string \<times> string list \<Rightarrow> string \<times> string list" where
  "bundle_file root start_path dirpath filename st =
     (let filepath = dirpath @ [filename];
          relative_filepath = relpath filepath
      in case open_r root filepath of
           Inl e \<Rightarrow> (fst st, snd st @ [could_not_read (path_str start_path filepath) e])
         | Inr infile \<Rightarrow>
             (let out1 = fst st @ header relative_filepath
              in case read_text infile of
                   Inl e \<Rightarrow> (out1, snd st @ [could_not_read (path_str start_path filepath) e])
                 | Inr t \<Rightarrow> (out1 @ t @ [nl, nl], snd st)))"

text \<open>The two loops: over the file names of a triple, and over the triples of the walk.\<close>

definition bundle_dir ::
  "node \<Rightarrow> string \<Rightarrow> path \<times> string list \<times> string list \<Rightarrow> string \<times> string list \<Rightarrow> string \<times> string list" where
  "bundle_dir root start_path triple st =
     (case triple of (dirpath, ds, fns) \<Rightarrow> fold (bundle_file root start_path dirpath) fns st)"

definition bundle_walk :: "node option \<Rightarrow> string \<Rightarrow> string \<times> string list \<Rightarrow> string \<times> string list" where
  "bundle_walk start start_path st =
     (case start of
        None \<Rightarrow> st
      | Some root \<Rightarrow> fold (bundle_dir root start_path) (walk [] root) st)"

text \<open>
  \<open>bundle_files\<close>: the output file is opened (created or truncated) first, the
  tree is walked, and the text written is the content of the output file when the
  \<open>with\<close> block closes it.
\<close>

definition bundle_files :: "string \<Rightarrow> string \<Rightarrow> world \<Rightarrow> error + world" where
  "bundle_files start_path output_file w =
     (case open_w (fs w) output_file of
        Inl e \<Rightarrow> Inl e
      | Inr fs1 \<Rightarrow>
          (case bundle_walk (fs1 start_path) start_path ([], console w) of
             (out, con) \<Rightarrow> Inr (w\<lparr>fs := fs1(output_file \<mapsto> File (Text out)), console := con\<rparr>)))"

text \<open>The entry point, with its two constants and its guard.\<close>

definition source_directory :: string where
  "source_directory = ''src''"

definition output_filename :: string where
  "output_filename = ''Code_Bundle.txt''"

definition main :: "world \<Rightarrow> error + world" where
  "main w =
     (if isdir w source_directory then
        (case bundle_files source_directory output_filename w of
           Inl e \<Rightarrow> Inl e
         | Inr w' \<Rightarrow>
             Inr (w'\<lparr>console := console w' @
               [''All files from '' @ [CHR 0x27] @ source_directory @ [CHR 0x27] @
                '' have been bundled into '' @ [CHR 0x27] @ output_filename @ [CHR 0x27]]\<rparr>))
      else
        Inr (w\<lparr>console := console w @
          [''Error: The directory '' @ [CHR 0x27] @ source_directory @ [CHR 0x27] @
           '' does not exist.'']\<rparr>))"


section \<open>Reading a bundle back\<close>

text \<open>
  The script has no parser. The bundle is read here the way the specification
  describes its format: a record starts at each line that begins with \<open>--- \<close> and
  ends with \<open> ---\<close>; the relative path is the text between the two marks; the
  content is everything up to the next such line (or the end), without the two
  newlines that close a record. Lines before the first header belong to no record.
\<close>

text \<open>The lines of a text, split at newlines; a last line without newline counts.\<close>

fun lines_acc :: "string \<Rightarrow> string \<Rightarrow> string list" where
  "lines_acc cur [] = (if cur = [] then [] else [cur])"
| "lines_acc cur (c # cs) = (if c = nl then cur # lines_acc [] cs else lines_acc (cur @ [c]) cs)"

definition text_lines :: "string \<Rightarrow> string list" where
  "text_lines s = lines_acc [] s"

definition is_header :: "string \<Rightarrow> bool" where
  "is_header l \<longleftrightarrow> take 4 l = ''--- '' \<and> drop (length l - 4) l = '' ---''"

definition header_path :: "string \<Rightarrow> string" where
  "header_path l = take (length l - 8) (drop 4 l)"

definition strip_sep :: "string \<Rightarrow> string" where
  "strip_sep s = (if drop (length s - 2) s = [nl, nl] then take (length s - 2) s else s)"

definition content_of :: "string list \<Rightarrow> string" where
  "content_of body = strip_sep (concat (map (\<lambda>l. l @ [nl]) body))"

function parse_lines :: "string list \<Rightarrow> (string \<times> string) list" where
  "parse_lines [] = []"
| "parse_lines (l # ls) =
     (if is_header l
      then (header_path l, content_of (takeWhile (\<lambda>x. \<not> is_header x) ls))
             # parse_lines (dropWhile (\<lambda>x. \<not> is_header x) ls)
      else parse_lines ls)"
  by pat_completeness auto
termination
  by (relation "measure length") (simp_all add: length_dropWhile_le le_imp_less_Suc)

definition parse_bundle :: "string \<Rightarrow> (string \<times> string) list" where
  "parse_bundle b = parse_lines (text_lines b)"


section \<open>Trees\<close>



text \<open>No directory of the tree lists a name twice.\<close>

fun distinct_names :: "node \<Rightarrow> bool"
  and distinct_names_entries :: "(string \<times> node) list \<Rightarrow> bool"
where
  "distinct_names (File f) = True"
| "distinct_names (Dir ok es) = (distinct (map fst es) \<and> distinct_names_entries es)"
| "distinct_names_entries [] = True"
| "distinct_names_entries ((name, n) # rest) = (distinct_names n \<and> distinct_names_entries rest)"



section \<open>What a run writes and prints, file by file\<close>

text \<open>
  The paths the two loops process, in order: each file name of each triple of the
  walk, joined to the triple's \<open>dirpath\<close>.
\<close>

definition visited :: "node \<Rightarrow> path list" where
  "visited root =
     concat (map (\<lambda>(dirpath, ds, fns). map (\<lambda>filename. dirpath @ [filename]) fns) (walk [] root))"

text \<open>The text the loop body writes for a path, and the lines it prints for it.\<close>

definition file_text :: "node \<Rightarrow> path \<Rightarrow> string" where
  "file_text root p =
     (case open_r root p of
        Inl e \<Rightarrow> []
      | Inr f \<Rightarrow> header (relpath p) @ (case read_text f of Inl e \<Rightarrow> [] | Inr t \<Rightarrow> t @ [nl, nl]))"

definition file_msgs :: "node \<Rightarrow> string \<Rightarrow> path \<Rightarrow> string list" where
  "file_msgs root start_path p =
     (case open_r root p of
        Inl e \<Rightarrow> [could_not_read (path_str start_path p) e]
      | Inr f \<Rightarrow>
          (case read_text f of
             Inl e \<Rightarrow> [could_not_read (path_str start_path p) e]
           | Inr t \<Rightarrow> []))"

definition bundle_out :: "node option \<Rightarrow> string" where
  "bundle_out start =
     (case start of None \<Rightarrow> [] | Some root \<Rightarrow> concat (map (file_text root) (visited root)))"

definition bundle_msgs :: "node option \<Rightarrow> string \<Rightarrow> string list" where
  "bundle_msgs start start_path =
     (case start of
        None \<Rightarrow> []
      | Some root \<Rightarrow> concat (map (file_msgs root start_path) (visited root)))"



text \<open>The visited paths by recursion on the tree.\<close>

fun files :: "node \<Rightarrow> path list"
  and sub_files :: "(string \<times> node) list \<Rightarrow> path list"
where
  "files (File f) = []"
| "files (Dir ok es) = (if ok then map (\<lambda>filename. [filename]) (filenames es) @ sub_files es else [])"
| "sub_files [] = []"
| "sub_files ((name, n) # rest) = map ((#) name) (files n) @ sub_files rest"

section \<open>Example trees\<close>

text \<open>
  A directory with \<open>a.txt\<close> holding \<open>hello\<close> and \<open>sub/b.txt\<close> holding
  \<open>world\<close> and a newline; and one with a subdirectory that cannot be enumerated.
\<close>

definition example_tree :: node where
  "example_tree =
     Dir True [(''a.txt'', File (Text ''hello'')),
               (''sub'', Dir True [(''b.txt'', File (Text (''world'' @ [nl])))])]"

definition example_bundle :: string where
  "example_bundle =
     ''--- a.txt ---'' @ [nl] @ ''hello'' @ [nl, nl] @
     ''--- sub/b.txt ---'' @ [nl] @ ''world'' @ [nl] @ [nl, nl]"

definition locked_tree :: node where
  "locked_tree =
     Dir True [(''a.txt'', File (Text ''hello'')),
               (''locked'', Dir False [(''secret.txt'', File (Text ''x''))])]"

section \<open>Auxiliary lemmas\<close>

lemmas run_simps = bundle_files_def open_w_def bundle_walk_def bundle_dir_def bundle_file_def
  open_r_def header_def could_not_read_def path_str_def join_def

lemmas parse_simps = parse_bundle_def text_lines_def is_header_def header_path_def content_of_def
  strip_sep_def nl_def

lemma bundle_file_split:
  "bundle_file root s d f st = (fst st @ file_text root (d @ [f]), snd st @ file_msgs root s (d @ [f]))"
  by (simp add: bundle_file_def file_text_def file_msgs_def Let_def split: sum.splits)

lemma fold_bundle_file:
  "fold (bundle_file root s d) fns st =
     (fst st @ concat (map (\<lambda>f. file_text root (d @ [f])) fns),
      snd st @ concat (map (\<lambda>f. file_msgs root s (d @ [f])) fns))"
  by (induction fns arbitrary: st) (simp_all add: bundle_file_split)

lemma fold_bundle_dir:
  "fold (bundle_dir root s) ts st =
     (fst st @ concat (map (file_text root) (concat (map (\<lambda>(dirpath, ds, fns). map (\<lambda>filename. dirpath @ [filename]) fns) ts))),
      snd st @ concat (map (file_msgs root s) (concat (map (\<lambda>(dirpath, ds, fns). map (\<lambda>filename. dirpath @ [filename]) fns) ts))))"
  by (induction ts arbitrary: st) (auto simp: bundle_dir_def fold_bundle_file map_concat comp_def)

lemma bundle_walk_Some:
  "bundle_walk (Some root) s st =
     (fst st @ concat (map (file_text root) (visited root)),
      snd st @ concat (map (file_msgs root s) (visited root)))"
  by (simp add: bundle_walk_def fold_bundle_dir visited_def)


lemma bundle_walk_eq:
  "bundle_walk start s st = (fst st @ bundle_out start, snd st @ bundle_msgs start s)"
  by (cases start) (simp_all add: bundle_walk_Some bundle_out_def bundle_msgs_def, simp add: bundle_walk_def)

lemma bundle_files_eq:
  assumes "\<not> is_dir_node (fs w output_file)"
  shows "bundle_files start_path output_file w =
           Inr (w\<lparr>fs := (fs w)(output_file \<mapsto>
                        File (Text (bundle_out (((fs w)(output_file \<mapsto> File (Text []))) start_path)))),
                  console := console w @ bundle_msgs (((fs w)(output_file \<mapsto> File (Text []))) start_path) start_path\<rparr>)"
  using assms by (simp add: bundle_files_def open_w_def bundle_walk_eq)

lemma bundle_files_Inr_iff:
  "(\<exists>w'. bundle_files start_path output_file w = Inr w') \<longleftrightarrow> \<not> is_dir_node (fs w output_file)"
  by (auto simp: bundle_files_def open_w_def split: prod.splits)











lemma strip_sep_content: "strip_sep (t @ [nl, nl]) = t"
  by (simp add: strip_sep_def)

lemma strip_sep_Nil: "strip_sep [] = []"
  by (simp add: strip_sep_def)













lemma walk_paths:
  "concat (map (\<lambda>(dirpath, ds, fns). map (\<lambda>filename. dirpath @ [filename]) fns) (walk d n)) = map ((@) d) (files n)"
  "concat (map (\<lambda>(dirpath, ds, fns). map (\<lambda>filename. dirpath @ [filename]) fns) (walk_dirs d es)) = map ((@) d) (sub_files es)"
  by (induction d n and d es rule: walk_walk_dirs.induct) (simp_all add: comp_def)

lemma visited_files: "visited root = files root"
  using walk_paths(1)[of "[]" root] by (simp add: visited_def map_idI)

lemma in_filenames: "f \<in> set (filenames es) \<longleftrightarrow> (\<exists>x. (f, File x) \<in> set es)"
  by (induction es rule: filenames.induct) auto

lemma in_sub_files:
  "q \<in> set (sub_files es) \<longleftrightarrow> (\<exists>name n q'. (name, n) \<in> set es \<and> q = name # q' \<and> q' \<in> set (files n))"
proof (induction es)
  case Nil
  show ?case by simp
next
  case (Cons e es)
  obtain name n where e: "e = (name, n)" by (cases e)
  show ?case unfolding e using Cons.IH by (simp add: image_iff) blast
qed


lemma files_Cons_iff:
  "c # cs \<in> set (files n) \<longleftrightarrow>
     (\<exists>es. n = Dir True es \<and>
        ((cs = [] \<and> (\<exists>x. (c, File x) \<in> set es)) \<or> (\<exists>m. (c, m) \<in> set es \<and> cs \<in> set (files m))))"
  by (cases n) (auto simp: in_filenames in_sub_files image_iff)

lemma distinct_names_entry:
  "distinct_names_entries es \<Longrightarrow> (name, n) \<in> set es \<Longrightarrow> distinct_names n"
  by (induction es) auto

















lemma bundle_files_tree:
  assumes "fs w start_path = Some root" and "is_dir_node (Some root)" and "\<not> isdir w output_file"
  shows "bundle_files start_path output_file w =
           Inr (w\<lparr>fs := (fs w)(output_file \<mapsto> File (Text (concat (map (file_text root) (visited root))))),
                  console := console w @ concat (map (file_msgs root start_path) (visited root))\<rparr>)"
proof -
  have "start_path \<noteq> output_file" using assms by (auto simp: isdir_def)
  then have "((fs w)(output_file \<mapsto> File (Text []))) start_path = Some root"
    using assms(1) by simp
  then show ?thesis
    using assms(3) by (simp add: bundle_files_eq isdir_def bundle_out_def bundle_msgs_def)
qed


lemma not_under_unlistable:
  "distinct_names n \<Longrightarrow> lookup n q = Some (Dir False es) \<Longrightarrow> p \<in> set (files n) \<Longrightarrow> take (length q) p \<noteq> q"
proof (induction q arbitrary: n p)
  case Nil
  then show ?case by simp
next
  case (Cons c cs)
  show ?case
  proof
    assume eq: "take (length (c # cs)) p = c # cs"
    then obtain p' where p: "p = c # p'" and p': "take (length cs) p' = cs"
      by (cases p) auto
    have "c # p' \<in> set (files n)" using Cons.prems(3) p by simp
    then obtain es0 where n: "n = Dir True es0"
      and alt: "(p' = [] \<and> (\<exists>x. (c, File x) \<in> set es0)) \<or> (\<exists>m. (c, m) \<in> set es0 \<and> p' \<in> set (files m))"
      unfolding files_Cons_iff by blast
    have d: "distinct (map fst es0)" "distinct_names_entries es0" using Cons.prems(1) n by simp_all
    from alt show False
    proof
      assume "p' = [] \<and> (\<exists>x. (c, File x) \<in> set es0)"
      then obtain x where x: "p' = []" "(c, File x) \<in> set es0" by blast
      then have "map_of es0 c = Some (File x)" using d(1) by simp
      moreover have "cs = []" using p' x(1) by simp
      ultimately show False using Cons.prems(2) n by simp
    next
      assume "\<exists>m. (c, m) \<in> set es0 \<and> p' \<in> set (files m)"
      then obtain m where m: "(c, m) \<in> set es0" "p' \<in> set (files m)" by blast
      have "map_of es0 c = Some m" using d(1) m(1) by simp
      then have "lookup m cs = Some (Dir False es)" using Cons.prems(2) n by simp
      from Cons.IH[OF distinct_names_entry[OF d(2) m(1)] this m(2)] p' show False by simp
    qed
  qed
qed

section \<open>The claims\<close>

subsection \<open>The record of a file that was read\<close>



subsection \<open>The guard of the entry point\<close>

text \<open>
  C3. If the source directory does not exist (or is no directory), the program
  prints the error line naming \<open>src\<close> and does nothing else: the file system is
  as it was, so no output file is created and one left by an earlier run keeps its
  content. Nothing is walked, since no other line is printed and no file changes.
\<close>

theorem main_missing_source:
  assumes "\<not> isdir w source_directory"
  shows "\<exists>w'. main w = Inr w' \<and> fs w' = fs w \<and>
           console w' = console w @ [''Error: The directory '' @ [CHR 0x27] @ ''src'' @ [CHR 0x27] @ '' does not exist.'']"
  using assms by (simp add: main_def source_directory_def)

theorem main_missing_source_witness:
  "\<not> isdir \<lparr>fs = [''Code_Bundle.txt'' \<mapsto> File (Text ''old bundle'')], console = []\<rparr> source_directory
   \<and> (\<exists>w'. main \<lparr>fs = [''Code_Bundle.txt'' \<mapsto> File (Text ''old bundle'')], console = []\<rparr> = Inr w'
         \<and> fs w' = [''Code_Bundle.txt'' \<mapsto> File (Text ''old bundle'')]
         \<and> console w' = [''Error: The directory '' @ [CHR 0x27] @ ''src'' @ [CHR 0x27] @ '' does not exist.''])"
  using main_missing_source[of "\<lparr>fs = [''Code_Bundle.txt'' \<mapsto> File (Text ''old bundle'')], console = []\<rparr>"]
  by (simp add: isdir_def source_directory_def)



subsection \<open>The output file\<close>

text \<open>
  C7. A second run on the world the first run left (the tree unchanged, entries
  enumerated in the same order) returns normally and leaves the same file system:
  the output file has the same content, character for character.
\<close>

theorem bundle_files_twice:
  assumes "bundle_files start_path output_file w = Inr w1"
  shows "\<exists>w2. bundle_files start_path output_file w1 = Inr w2 \<and> fs w2 = fs w1"
proof -
  have ok: "\<not> is_dir_node (fs w output_file)"
    using assms bundle_files_Inr_iff by blast
  let ?fs1 = "(fs w)(output_file \<mapsto> File (Text []))"
  have w1: "fs w1 = (fs w)(output_file \<mapsto> File (Text (bundle_out (?fs1 start_path))))"
    using assms by (simp add: bundle_files_eq[OF ok]) auto
  have ok1: "\<not> is_dir_node (fs w1 output_file)"
    by (simp add: w1)
  have "(fs w1)(output_file \<mapsto> File (Text [])) = ?fs1"
    by (simp add: w1)
  then show ?thesis
    by (simp add: bundle_files_eq[OF ok1]) (simp add: w1)
qed

theorem bundle_files_twice_witness:
  "bundle_files ''src'' ''Code_Bundle.txt'' \<lparr>fs = [''src'' \<mapsto> example_tree], console = []\<rparr> =
     Inr \<lparr>fs = [''src'' \<mapsto> example_tree, ''Code_Bundle.txt'' \<mapsto> File (Text example_bundle)], console = []\<rparr>
   \<and> (\<exists>w2. bundle_files ''src'' ''Code_Bundle.txt''
               \<lparr>fs = [''src'' \<mapsto> example_tree, ''Code_Bundle.txt'' \<mapsto> File (Text example_bundle)], console = []\<rparr> = Inr w2
            \<and> fs w2 = fs \<lparr>fs = [''src'' \<mapsto> example_tree, ''Code_Bundle.txt'' \<mapsto> File (Text example_bundle)], console = []\<rparr>)"
proof -
  have h: "bundle_files ''src'' ''Code_Bundle.txt'' \<lparr>fs = [''src'' \<mapsto> example_tree], console = []\<rparr> =
     Inr \<lparr>fs = [''src'' \<mapsto> example_tree, ''Code_Bundle.txt'' \<mapsto> File (Text example_bundle)], console = []\<rparr>"
    by (simp add: run_simps example_tree_def example_bundle_def)
  show ?thesis
    using h bundle_files_twice[OF h] by blast
qed

text \<open>
  C8. When the run proceeds, the output file is opened fresh: whatever the output
  path held before (nothing, or a file with any content), the run returns and leaves
  the same file system, and no path other than the output path changes.
\<close>

theorem output_file_fresh:
  assumes "\<not> is_dir_node a" and "\<not> is_dir_node b"
  shows "\<exists>wa wb. bundle_files start_path output_file (w\<lparr>fs := (fs w)(output_file := a)\<rparr>) = Inr wa
           \<and> bundle_files start_path output_file (w\<lparr>fs := (fs w)(output_file := b)\<rparr>) = Inr wb
           \<and> fs wa = fs wb
           \<and> (\<forall>p. p \<noteq> output_file \<longrightarrow> fs wa p = fs w p)"
  using assms by (simp add: bundle_files_eq)

theorem output_file_fresh_witness:
  "\<not> is_dir_node None \<and> \<not> is_dir_node (Some (File (Text ''old bundle'')))
   \<and> (\<exists>wa wb.
         bundle_files ''src'' ''Code_Bundle.txt''
           (\<lparr>fs = [''src'' \<mapsto> example_tree], console = []\<rparr>
              \<lparr>fs := (fs \<lparr>fs = [''src'' \<mapsto> example_tree], console = []\<rparr>)(''Code_Bundle.txt'' := None)\<rparr>) = Inr wa
       \<and> bundle_files ''src'' ''Code_Bundle.txt''
           (\<lparr>fs = [''src'' \<mapsto> example_tree], console = []\<rparr>
              \<lparr>fs := (fs \<lparr>fs = [''src'' \<mapsto> example_tree], console = []\<rparr>)
                       (''Code_Bundle.txt'' := Some (File (Text ''old bundle'')))\<rparr>) = Inr wb
       \<and> fs wa = fs wb
       \<and> (\<forall>p. p \<noteq> ''Code_Bundle.txt'' \<longrightarrow> fs wa p = fs \<lparr>fs = [''src'' \<mapsto> example_tree], console = []\<rparr> p))"
proof -
  have a: "\<not> is_dir_node None" and b: "\<not> is_dir_node (Some (File (Text ''old bundle'')))"
    by simp_all
  show ?thesis
    using a b output_file_fresh[OF a b, of "''src''" "''Code_Bundle.txt''"
        "\<lparr>fs = [''src'' \<mapsto> example_tree], console = []\<rparr>"]
    by blast
qed

subsection \<open>Files that cannot be read\<close>

text \<open>
  What the loop body does on the two kinds of failure. A file that cannot be opened
  leaves the output untouched; a file that opens but cannot be decoded has its
  header written before \<open>read()\<close> raises, and the header stays.
\<close>

lemma unopenable_file_skipped:
  assumes "lookup root (dirpath @ [filename]) = Some (File (Unopenable m))"
  shows "bundle_file root start_path dirpath filename (out, con) =
           (out, con @ [''Could not read file '' @ path_str start_path (dirpath @ [filename]) @ '': '' @ m])"
  using assms by (simp add: bundle_file_def open_r_def could_not_read_def Let_def)

lemma undecodable_file_header:
  assumes "lookup root (dirpath @ [filename]) = Some (File (Undecodable m))"
  shows "bundle_file root start_path dirpath filename (out, con) =
           (out @ ''--- '' @ relpath (dirpath @ [filename]) @ '' ---'' @ [nl],
            con @ [''Could not read file '' @ path_str start_path (dirpath @ [filename]) @ '': '' @ m])"
  using assms by (simp add: bundle_file_def open_r_def could_not_read_def header_def Let_def)

text \<open>
  C1. The claim that a file whose reading fails leaves the output as it was does not
  hold of the code: on a directory whose only file is not valid UTF-8, the bundle
  ends up holding the header of that file, with no content and no separator.
\<close>

theorem undecodable_file_leaves_header:
  "bundle_files ''src'' ''Code_Bundle.txt''
     \<lparr>fs = [''src'' \<mapsto> Dir True [(''bad.bin'', File (Undecodable ''invalid start byte''))]], console = []\<rparr>
   = Inr \<lparr>fs = [''src'' \<mapsto> Dir True [(''bad.bin'', File (Undecodable ''invalid start byte''))],
                ''Code_Bundle.txt'' \<mapsto> File (Text (''--- bad.bin ---'' @ [nl]))],
          console = [''Could not read file src/bad.bin: invalid start byte'']\<rparr>"
  by (simp add: run_simps)

text \<open>
  C5. The claim that a file whose reading fails is absent from the records of the
  output does not hold of the code either: with an undecodable \<open>bad.bin\<close> next to
  a readable \<open>good.txt\<close>, the diagnostic is printed and the record of
  \<open>good.txt\<close> is written, but the bundle also holds the header of \<open>bad.bin\<close>,
  and read back it has a record for \<open>bad.bin\<close>.
\<close>

theorem undecodable_file_in_records:
  "bundle_files ''src'' ''Code_Bundle.txt''
     \<lparr>fs = [''src'' \<mapsto> Dir True [(''bad.bin'', File (Undecodable ''invalid start byte'')),
                                  (''good.txt'', File (Text ''hello''))]], console = []\<rparr>
   = Inr \<lparr>fs = [''src'' \<mapsto> Dir True [(''bad.bin'', File (Undecodable ''invalid start byte'')),
                                  (''good.txt'', File (Text ''hello''))],
                ''Code_Bundle.txt'' \<mapsto>
                  File (Text (''--- bad.bin ---'' @ [nl] @ ''--- good.txt ---'' @ [nl] @ ''hello'' @ [nl, nl]))],
          console = [''Could not read file src/bad.bin: invalid start byte'']\<rparr>
   \<and> parse_bundle (''--- bad.bin ---'' @ [nl] @ ''--- good.txt ---'' @ [nl] @ ''hello'' @ [nl, nl])
       = [(''bad.bin'', []), (''good.txt'', ''hello'')]"
  by (simp add: run_simps parse_simps)

subsection \<open>Reading the bundle back\<close>

text \<open>
  The format does not escape anything, so a text with a line of the form of a header
  cannot be told from a sequence of records: two different trees have the same
  bundle, whatever parser is used.
\<close>

lemma bundle_text_ambiguous:
  "bundle_out (Some (Dir True [(''a'', File (Text (''x'' @ [nl, nl] @ ''--- b ---'' @ [nl] @ ''y'')))]))
   = bundle_out (Some (Dir True [(''a'', File (Text ''x'')), (''b'', File (Text ''y''))]))"
  by (simp add: bundle_out_def visited_def file_text_def open_r_def header_def)







subsection \<open>Directories that cannot be enumerated\<close>

text \<open>
  C10. A directory \<open>q\<close> of the tree that cannot be enumerated is passed over in
  silence: the run returns, everything it writes and every line it prints comes from
  the files the walk visits, and none of these is \<open>q\<close> or lies beneath \<open>q\<close>. So no
  file beneath \<open>q\<close> is in the output, and no diagnostic is printed for \<open>q\<close> or for
  a file beneath it. (Directories list no name twice.)
\<close>

theorem unlistable_directory_skipped:
  assumes "fs w start_path = Some root" and "\<not> isdir w output_file"
    and "distinct_names root" and "lookup root q = Some (Dir False es)"
  shows "\<exists>w'. bundle_files start_path output_file w = Inr w'
           \<and> fs w' output_file = Some (File (Text (concat (map (file_text root) (visited root)))))
           \<and> console w' = console w @ concat (map (file_msgs root start_path) (visited root))
           \<and> (\<forall>p\<in>set (visited root). take (length q) p \<noteq> q)"
proof -
  have "is_dir_node (Some root)"
    using assms(4) by (cases root; cases q) auto
  note run = bundle_files_tree[OF assms(1) this assms(2)]
  show ?thesis
    unfolding run using not_under_unlistable[OF assms(3,4)] by (simp add: visited_files)
qed

theorem unlistable_directory_skipped_witness:
  "fs \<lparr>fs = [''src'' \<mapsto> locked_tree], console = []\<rparr> ''src'' = Some locked_tree
   \<and> \<not> isdir \<lparr>fs = [''src'' \<mapsto> locked_tree], console = []\<rparr> ''Code_Bundle.txt''
   \<and> distinct_names locked_tree
   \<and> lookup locked_tree [''locked''] = Some (Dir False [(''secret.txt'', File (Text ''x''))])
   \<and> (\<exists>w'. bundle_files ''src'' ''Code_Bundle.txt'' \<lparr>fs = [''src'' \<mapsto> locked_tree], console = []\<rparr> = Inr w'
         \<and> fs w' ''Code_Bundle.txt'' = Some (File (Text (''--- a.txt ---'' @ [nl] @ ''hello'' @ [nl, nl])))
         \<and> console w' = []
         \<and> visited locked_tree = [[''a.txt'']])"
proof -
  have h1: "fs \<lparr>fs = [''src'' \<mapsto> locked_tree], console = []\<rparr> ''src'' = Some locked_tree"
    by simp
  have h2: "\<not> isdir \<lparr>fs = [''src'' \<mapsto> locked_tree], console = []\<rparr> ''Code_Bundle.txt''"
    by (simp add: isdir_def)
  have h3: "distinct_names locked_tree"
    by (simp add: locked_tree_def)
  have h4: "lookup locked_tree [''locked''] = Some (Dir False [(''secret.txt'', File (Text ''x''))])"
    by (simp add: locked_tree_def)
  have v: "visited locked_tree = [[''a.txt'']]"
    by (simp add: visited_def locked_tree_def)
  have t: "file_text locked_tree [''a.txt''] = ''--- a.txt ---'' @ [nl] @ ''hello'' @ [nl, nl]"
    and m: "file_msgs locked_tree ''src'' [''a.txt''] = []"
    by (simp_all add: file_text_def file_msgs_def open_r_def header_def locked_tree_def)
  show ?thesis
    using h1 h2 h3 h4 unlistable_directory_skipped[OF h1 h2 h3 h4] by (simp add: v t m)
qed

end
